theory Spec2Isabelle
  imports Main
begin

section \<open>Python values used by the client\<close>

text \<open>
  A parameter declared \<^verbatim>\<open>bool = None\<close> holds \<^verbatim>\<open>None\<close>, \<^verbatim>\<open>False\<close> or \<^verbatim>\<open>True\<close>:
  it is a \<^typ>\<open>bool option\<close>. Python reads such a value by its truth value, and
  \<^verbatim>\<open>None\<close> is falsy like \<^verbatim>\<open>False\<close>.
\<close>

type_synonym flag = "bool option"

fun truthy :: "flag \<Rightarrow> bool" where
  "truthy None = False"
| "truthy (Some b) = b"

text \<open>\<^verbatim>\<open>x or None\<close>: the left operand when it is truthy, \<^verbatim>\<open>None\<close> otherwise.\<close>

definition or_None :: "flag \<Rightarrow> flag" where
  "or_None x = (if truthy x then x else None)"

section \<open>ChatPermissions\<close>

text \<open>
  The denial flags of \<^verbatim>\<open>types.ChatBannedRights\<close> that \<^verbatim>\<open>ChatPermissions._parse\<close> reads.
  The raw type's declaration is not part of the sources at hand; its flags are taken
  as Python booleans that may be unset.
\<close>

record chat_banned_rights =
  send_messages :: flag
  send_media :: flag
  send_stickers :: flag
  send_gifs :: flag
  send_games :: flag
  send_inline :: flag
  embed_links :: flag
  send_polls :: flag
  change_info :: flag
  invite_users :: flag
  pin_messages :: flag

text \<open>The fields of \<^verbatim>\<open>ChatPermissions\<close>, each \<^verbatim>\<open>bool = None\<close> in the constructor.\<close>

record chat_permissions =
  can_send_messages :: flag
  can_send_media_messages :: flag
  can_send_other_messages :: flag
  can_add_web_page_previews :: flag
  can_send_polls :: flag
  can_change_info :: flag
  can_invite_users :: flag
  can_pin_messages :: flag

text \<open>
  What a caller can hand to \<^verbatim>\<open>_parse\<close>: the \<^verbatim>\<open>isinstance\<close> test tells a
  \<^verbatim>\<open>ChatBannedRights\<close> object from everything else (\<^verbatim>\<open>None\<close>, or an object of
  another class, named here by its class).
\<close>

datatype py_object =
  ChatBannedRights chat_banned_rights
| PyNone
| PyOther string

text \<open>
  \<^verbatim>\<open>ChatPermissions._parse\<close>. The function has no \<^verbatim>\<open>else\<close> branch: an argument that
  fails the \<^verbatim>\<open>isinstance\<close> test falls off the end of the body, which returns
  \<^verbatim>\<open>None\<close>. Python's \<^verbatim>\<open>not\<close> yields a proper boolean, so every field built here is
  set.
\<close>

fun ChatPermissions_parse :: "py_object \<Rightarrow> chat_permissions option" where
  "ChatPermissions_parse (ChatBannedRights denied_permissions) =
     Some \<lparr>
       can_send_messages = Some (\<not> truthy (send_messages denied_permissions)),
       can_send_media_messages = Some (\<not> truthy (send_media denied_permissions)),
       can_send_other_messages = Some (
         \<not> truthy (send_stickers denied_permissions) \<or> \<not> truthy (send_gifs denied_permissions) \<or>
         \<not> truthy (send_games denied_permissions) \<or> \<not> truthy (send_inline denied_permissions)),
       can_add_web_page_previews = Some (\<not> truthy (embed_links denied_permissions)),
       can_send_polls = Some (\<not> truthy (send_polls denied_permissions)),
       can_change_info = Some (\<not> truthy (change_info denied_permissions)),
       can_invite_users = Some (\<not> truthy (invite_users denied_permissions)),
       can_pin_messages = Some (\<not> truthy (pin_messages denied_permissions))
     \<rparr>"
| "ChatPermissions_parse PyNone = None"
| "ChatPermissions_parse (PyOther cls) = None"

text \<open>A denial record with every flag set to the same value.\<close>

definition all_flags :: "flag \<Rightarrow> chat_banned_rights" where
  "all_flags b = \<lparr>
     send_messages = b, send_media = b, send_stickers = b, send_gifs = b,
     send_games = b, send_inline = b, embed_links = b, send_polls = b,
     change_info = b, invite_users = b, pin_messages = b \<rparr>"

section \<open>The raw API records that send_message handles\<close>

text \<open>\<^verbatim>\<open>chat_id: Union[int, str]\<close>.\<close>

datatype chat_ref = ChatInt int | ChatStr string

text \<open>
  \<^verbatim>\<open>parse_mode: Union[str, None] = object\<close>: the default is the sentinel \<^verbatim>\<open>object\<close>,
  which differs from an explicit \<^verbatim>\<open>None\<close>.
\<close>

datatype parse_mode_arg = ModeUnset | ModeNone | ModeStr string

text \<open>
  Modelled from the spec: the parse modes of the entity parser (its source is not among
  the files at hand) and the mode each argument selects, as the spec's data model and
  the docstring of \<^verbatim>\<open>send_message\<close> give them: both syntaxes by default,
  \<^verbatim>\<open>"markdown"\<close> or \<^verbatim>\<open>"md"\<close> for Markdown only, \<^verbatim>\<open>"html"\<close> for HTML only,
  \<^verbatim>\<open>None\<close> for no parsing. Neither text says what another string selects.
\<close>

datatype parse_mode = CombinedMarkdownHtml | MarkdownOnly | HtmlOnly | NoParsing

fun selected_mode :: "parse_mode_arg \<Rightarrow> parse_mode option" where
  "selected_mode ModeUnset = Some CombinedMarkdownHtml"
| "selected_mode ModeNone = Some NoParsing"
| "selected_mode (ModeStr s) =
     (if s = ''markdown'' \<or> s = ''md'' then Some MarkdownOnly
      else if s = ''html'' then Some HtmlOnly
      else None)"

text \<open>
  Modelled from the spec: an entity, a styled span over the plain text. The function
  \<^verbatim>\<open>send_message\<close> never looks inside one.
\<close>

datatype entity_kind =
  Bold | Italic | Underline | Strikethrough | Code | Pre | TextLink | TextMention

record entity =
  kind :: entity_kind
  offset :: nat
  span :: nat
  extra :: "string option"

text \<open>
  A Python list is an object: a variable holds a reference to it, and two variables may
  hold the same reference. The entity sequence is therefore an address, and a store
  gives the list that lives at an address.
\<close>

type_synonym entities_ref = nat


text \<open>
  Modelled from the spec: the peer references (\<^verbatim>\<open>pyrogram.api.types\<close> is not among the
  files at hand). The function tests for \<^verbatim>\<open>InputPeerUser\<close> and reads \<^verbatim>\<open>user_id\<close>
  from it, and reads \<^verbatim>\<open>chat_id\<close> from any other peer; the spec's identity has the
  kinds user and chat, each with its numeric id.
\<close>

datatype input_peer = InputPeerUser int | InputPeerChat int

text \<open>
  A reply markup object of the caller (a keyboard, a forced reply) and what its
  \<^verbatim>\<open>write()\<close> gives; both are opaque to \<^verbatim>\<open>send_message\<close>.
\<close>

type_synonym reply_markup_obj = string

type_synonym raw_markup = string

type_synonym raw_message = string

text \<open>\<^verbatim>\<open>functions.messages.SendMessage\<close>, with the keyword arguments of the call.\<close>

record send_message_request =
  peer :: input_peer
  no_webpage :: flag
  silent :: flag
  reply_to_msg_id :: "int option"
  random_id :: int
  schedule_date :: "int option"
  reply_markup :: "raw_markup option"
  message :: string
  entities :: entities_ref

text \<open>
  The updates the function tells apart, each of the three new-message variants
  wrapping a raw message record; any other update is named by its class.
\<close>

datatype update =
  UpdateNewMessage raw_message
| UpdateNewChannelMessage raw_message
| UpdateNewScheduledMessage raw_message
| UpdateOther string

record raw_user =
  user_ident :: int
  user_data :: string

record raw_chat =
  chat_ident :: int
  chat_data :: string

text \<open>
  The response of the remote call: \<^verbatim>\<open>types.UpdateShortSentMessage\<close> with its \<^verbatim>\<open>id\<close>,
  \<^verbatim>\<open>date\<close> and \<^verbatim>\<open>out\<close>, or an object with \<^verbatim>\<open>updates\<close>, \<^verbatim>\<open>users\<close> and \<^verbatim>\<open>chats\<close>.
\<close>

datatype response =
  UpdateShortSentMessage int int flag
| Updates "update list" "raw_user list" "raw_chat list"

text \<open>
  \<^verbatim>\<open>pyrogram.Chat\<close> and \<^verbatim>\<open>pyrogram.Message\<close>, with the fields the constructor calls
  set (the \<^verbatim>\<open>client\<close> handle is left out). \<^verbatim>\<open>text\<close> and \<^verbatim>\<open>entities\<close> are named
  \<open>msg_text\<close> and \<open>msg_entities\<close> here.
\<close>

record chat =
  chat_peer_id :: int
  chat_type :: string

record message_obj =
  message_id :: int
  chat :: chat
  msg_text :: string
  date :: int
  outgoing :: flag
  msg_entities :: entities_ref

section \<open>The collaborators of send_message\<close>

text \<open>An exception raised by a collaborator, named by its class.\<close>

datatype error = Raised string

text \<open>
  The methods of the client that \<^verbatim>\<open>send_message\<close> calls are not among the files at
  hand: they are parameters. Each runs on the state \<open>'w\<close> of the world (the session,
  the peer cache, the random source, the server) and returns the new state; each but
  the random source may raise.
\<close>

record 'w client =
  parser_parse :: "string \<Rightarrow> parse_mode_arg \<Rightarrow> 'w \<Rightarrow> (error + string \<times> entities_ref) \<times> 'w"
  resolve_peer :: "chat_ref \<Rightarrow> 'w \<Rightarrow> (error + input_peer) \<times> 'w"
  rnd_id :: "'w \<Rightarrow> int \<times> 'w"
  markup_write :: "reply_markup_obj \<Rightarrow> raw_markup"
  send :: "send_message_request \<Rightarrow> 'w \<Rightarrow> (error + response) \<times> 'w"
  Message_parse ::
    "raw_message \<Rightarrow> (int \<rightharpoonup> raw_user) \<Rightarrow> (int \<rightharpoonup> raw_chat) \<Rightarrow> bool \<Rightarrow> 'w \<Rightarrow> (error + message_obj) \<times> 'w"

section \<open>send_message\<close>

text \<open>
  The dict comprehension \<^verbatim>\<open>{i.id: i for i in xs}\<close>: the entries are stored from left
  to right, a later one replacing an earlier one under the same key.
\<close>

definition by_id :: "('a \<Rightarrow> int) \<Rightarrow> 'a list \<Rightarrow> (int \<rightharpoonup> 'a)" where
  "by_id key xs = foldl (\<lambda>m i. m(key i \<mapsto> i)) Map.empty xs"

text \<open>A \<^verbatim>\<open>return f(...)\<close>: the value of the call, or its exception.\<close>

definition returning :: "(error + 'a) \<times> 'w \<Rightarrow> (error + 'a option) \<times> 'w" where
  "returning r = (case r of (Inl e, w) \<Rightarrow> (Inl e, w) | (Inr v, w) \<Rightarrow> (Inr (Some v), w))"

text \<open>
  The loop \<^verbatim>\<open>for i in r.updates\<close>. It returns at the first update that passes the
  \<^verbatim>\<open>isinstance\<close> test; when the updates run out, the function's body ends and Python
  returns \<^verbatim>\<open>None\<close>.
\<close>

fun scan_updates ::
  "'w client \<Rightarrow> raw_user list \<Rightarrow> raw_chat list \<Rightarrow> update list \<Rightarrow> 'w \<Rightarrow> (error + message_obj option) \<times> 'w"
where
  "scan_updates self r_users r_chats [] w = (Inr None, w)"
| "scan_updates self r_users r_chats (i # rest) w =
     (case i of
        UpdateNewMessage raw \<Rightarrow>
          returning (Message_parse self raw (by_id user_ident r_users) (by_id chat_ident r_chats) False w)
      | UpdateNewChannelMessage raw \<Rightarrow>
          returning (Message_parse self raw (by_id user_ident r_users) (by_id chat_ident r_chats) False w)
      | UpdateNewScheduledMessage raw \<Rightarrow>
          returning (Message_parse self raw (by_id user_ident r_users) (by_id chat_ident r_chats) True w)
      | UpdateOther cls \<Rightarrow> scan_updates self r_users r_chats rest w)"

text \<open>
  \<^verbatim>\<open>peer.user_id if isinstance(peer, types.InputPeerUser) else -peer.chat_id\<close>.
\<close>

fun peer_id_of :: "input_peer \<Rightarrow> int" where
  "peer_id_of (InputPeerUser user_id) = user_id"
| "peer_id_of (InputPeerChat chat_id) = - chat_id"

text \<open>
  The request object \<^verbatim>\<open>functions.messages.SendMessage(...)\<close> of the call, from the
  caller's arguments, the resolved peer, the random id and the parser's output.
  \<^verbatim>\<open>reply_markup.write() if reply_markup else None\<close> serialises a markup that was
  passed.
\<close>

definition SendMessage_request ::
  "'w client \<Rightarrow> input_peer \<Rightarrow> flag \<Rightarrow> flag \<Rightarrow> int option \<Rightarrow> int \<Rightarrow> int option \<Rightarrow>
   reply_markup_obj option \<Rightarrow> string \<Rightarrow> entities_ref \<Rightarrow> send_message_request"
where
  "SendMessage_request self request_peer disable_web_page_preview disable_notification
     reply_to_message_id rnd schedule_date_arg reply_markup_arg msg ents =
   \<lparr> peer = request_peer,
     no_webpage = or_None disable_web_page_preview,
     silent = or_None disable_notification,
     reply_to_msg_id = reply_to_message_id,
     random_id = rnd,
     schedule_date = schedule_date_arg,
     reply_markup = map_option (markup_write self) reply_markup_arg,
     message = msg,
     entities = ents \<rparr>"

text \<open>
  \<^verbatim>\<open>SendMessage.send_message\<close>. Python evaluates the keyword arguments of the request
  from left to right: \<^verbatim>\<open>resolve_peer\<close>, then \<^verbatim>\<open>rnd_id\<close>, then \<^verbatim>\<open>reply_markup.write()\<close>;
  an exception of any collaborator leaves the function at once.
\<close>

definition send_message ::
  "'w client \<Rightarrow> chat_ref \<Rightarrow> string \<Rightarrow> parse_mode_arg \<Rightarrow> flag \<Rightarrow> flag \<Rightarrow> int option \<Rightarrow> int option \<Rightarrow>
   reply_markup_obj option \<Rightarrow> 'w \<Rightarrow> (error + message_obj option) \<times> 'w"
where
  "send_message self chat_id text parse_mode disable_web_page_preview disable_notification
     reply_to_message_id schedule_date_arg reply_markup_arg w0 =
   (case parser_parse self text parse_mode w0 of
      (Inl e, w1) \<Rightarrow> (Inl e, w1)
    | (Inr (msg, ents), w1) \<Rightarrow>
   (case resolve_peer self chat_id w1 of
      (Inl e, w2) \<Rightarrow> (Inl e, w2)
    | (Inr request_peer, w2) \<Rightarrow>
   (case rnd_id self w2 of (rnd, w3) \<Rightarrow>
   (case send self
           (SendMessage_request self request_peer disable_web_page_preview disable_notification
              reply_to_message_id rnd schedule_date_arg reply_markup_arg msg ents) w3 of
      (Inl e, w4) \<Rightarrow> (Inl e, w4)
    | (Inr (UpdateShortSentMessage r_id r_date r_out), w4) \<Rightarrow>
        (case resolve_peer self chat_id w4 of
           (Inl e, w5) \<Rightarrow> (Inl e, w5)
         | (Inr p, w5) \<Rightarrow>
             (Inr (Some \<lparr> message_id = r_id,
                          chat = \<lparr> chat_peer_id = peer_id_of p, chat_type = ''private'' \<rparr>,
                          msg_text = msg,
                          date = r_date,
                          outgoing = r_out,
                          msg_entities = ents \<rparr>), w5))
    | (Inr (Updates r_updates r_users r_chats), w4) \<Rightarrow>
        scan_updates self r_users r_chats r_updates w4))))"

section \<open>The calls a run makes\<close>

datatype call =
  CallParse string parse_mode_arg
| CallResolvePeer chat_ref
| CallRndId
| CallSend send_message_request
| CallMessageParse raw_message bool

text \<open>
  A client that does what \<open>self\<close> does and writes every call of a collaborator, with
  its arguments, at the end of a log kept beside the world.
\<close>

definition traced :: "'w client \<Rightarrow> ('w \<times> call list) client" where
  "traced self = \<lparr>
     parser_parse = (\<lambda>text mode (w, l).
       case parser_parse self text mode w of (r, w') \<Rightarrow> (r, (w', l @ [CallParse text mode]))),
     resolve_peer = (\<lambda>chat_id (w, l).
       case resolve_peer self chat_id w of (r, w') \<Rightarrow> (r, (w', l @ [CallResolvePeer chat_id]))),
     rnd_id = (\<lambda>(w, l).
       case rnd_id self w of (r, w') \<Rightarrow> (r, (w', l @ [CallRndId]))),
     markup_write = markup_write self,
     send = (\<lambda>req (w, l).
       case send self req w of (r, w') \<Rightarrow> (r, (w', l @ [CallSend req]))),
     Message_parse = (\<lambda>raw us cs sched (w, l).
       case Message_parse self raw us cs sched w of (r, w') \<Rightarrow> (r, (w', l @ [CallMessageParse raw sched]))) \<rparr>"

definition calls ::
  "'w client \<Rightarrow> chat_ref \<Rightarrow> string \<Rightarrow> parse_mode_arg \<Rightarrow> flag \<Rightarrow> flag \<Rightarrow> int option \<Rightarrow> int option \<Rightarrow>
   reply_markup_obj option \<Rightarrow> 'w \<Rightarrow> call list"
where
  "calls self chat_id text parse_mode dwp dn reply_to sched markup w =
     snd (snd (send_message (traced self) chat_id text parse_mode dwp dn reply_to sched markup (w, [])))"

fun is_parse_call :: "call \<Rightarrow> bool" where
  "is_parse_call (CallParse t m) = True"
| "is_parse_call _ = False"

fun is_resolve_call :: "call \<Rightarrow> bool" where
  "is_resolve_call (CallResolvePeer c) = True"
| "is_resolve_call _ = False"

fun sent_requests :: "call list \<Rightarrow> send_message_request list" where
  "sent_requests [] = []"
| "sent_requests (CallSend req # l) = req # sent_requests l"
| "sent_requests (c # l) = sent_requests l"

text \<open>The \<^verbatim>\<open>isinstance\<close> test of the loop, and what it finds in a matching update.\<close>

fun is_new_message :: "update \<Rightarrow> bool" where
  "is_new_message (UpdateNewMessage raw) = True"
| "is_new_message (UpdateNewChannelMessage raw) = True"
| "is_new_message (UpdateNewScheduledMessage raw) = True"
| "is_new_message (UpdateOther cls) = False"

fun is_scheduled :: "update \<Rightarrow> bool" where
  "is_scheduled (UpdateNewScheduledMessage raw) = True"
| "is_scheduled _ = False"

fun raw_of :: "update \<Rightarrow> raw_message option" where
  "raw_of (UpdateNewMessage raw) = Some raw"
| "raw_of (UpdateNewChannelMessage raw) = Some raw"
| "raw_of (UpdateNewScheduledMessage raw) = Some raw"
| "raw_of (UpdateOther cls) = None"

section \<open>A scripted client\<close>

text \<open>
  A client for running \<open>send_message\<close> on concrete inputs. Its world is the number of
  calls made so far. The parser leaves the text as it is and puts the entities at
  address 7; the peer cache answers a call made at time \<open>w\<close> with \<open>peers w\<close>; the
  server answers every request with \<open>resp\<close>; the message parser reads the sender with
  id 1 and the chat with id 2 from the maps it is given.
\<close>

definition scripted :: "(nat \<Rightarrow> input_peer) \<Rightarrow> response \<Rightarrow> nat client" where
  "scripted peers resp = \<lparr>
     parser_parse = (\<lambda>text mode w. (Inr (text, 7), Suc w)),
     resolve_peer = (\<lambda>chat_id w. (Inr (peers w), Suc w)),
     rnd_id = (\<lambda>w. (1000 + int w, Suc w)),
     markup_write = (\<lambda>m. m),
     send = (\<lambda>req w. (Inr resp, Suc w)),
     Message_parse = (\<lambda>raw us cs sched w.
       (Inr \<lparr> message_id = 1,
               chat = (case cs 2 of
                         None \<Rightarrow> \<lparr> chat_peer_id = 0, chat_type = ''unknown'' \<rparr>
                       | Some c \<Rightarrow> \<lparr> chat_peer_id = chat_ident c, chat_type = chat_data c \<rparr>),
               msg_text = (case us 1 of None \<Rightarrow> raw | Some u \<Rightarrow> raw @ user_data u),
               date = 0,
               outgoing = Some sched,
               msg_entities = 8 \<rparr>, Suc w)) \<rparr>"


section \<open>Properties of ChatPermissions\<close>

text \<open>
  C1. For every denial record the translator returns a permissions object. In it
  \<open>can_send_other_messages\<close> is true exactly when at least one of \<open>send_stickers\<close>,
  \<open>send_gifs\<close>, \<open>send_games\<close>, \<open>send_inline\<close> is not set, and false exactly when all
  four are set; every other allow flag is the negation of its denial flag. A record
  whose flags are all false gives a permissions object whose flags are all true.
\<close>

theorem parse_negates_denials:
  "\<exists>p. ChatPermissions_parse (ChatBannedRights d) = Some p \<and>
     (can_send_other_messages p = Some True \<longleftrightarrow>
        (\<not> truthy (send_stickers d) \<or> \<not> truthy (send_gifs d) \<or>
         \<not> truthy (send_games d) \<or> \<not> truthy (send_inline d))) \<and>
     (can_send_other_messages p = Some False \<longleftrightarrow>
        (truthy (send_stickers d) \<and> truthy (send_gifs d) \<and>
         truthy (send_games d) \<and> truthy (send_inline d))) \<and>
     can_send_messages p = Some (\<not> truthy (send_messages d)) \<and>
     can_send_media_messages p = Some (\<not> truthy (send_media d)) \<and>
     can_add_web_page_previews p = Some (\<not> truthy (embed_links d)) \<and>
     can_send_polls p = Some (\<not> truthy (send_polls d)) \<and>
     can_change_info p = Some (\<not> truthy (change_info d)) \<and>
     can_invite_users p = Some (\<not> truthy (invite_users d)) \<and>
     can_pin_messages p = Some (\<not> truthy (pin_messages d)) \<and>
     (d = all_flags (Some False) \<longrightarrow>
        p = \<lparr> can_send_messages = Some True, can_send_media_messages = Some True,
              can_send_other_messages = Some True, can_add_web_page_previews = Some True,
              can_send_polls = Some True, can_change_info = Some True,
              can_invite_users = Some True, can_pin_messages = Some True \<rparr>)"
  by (auto simp add: all_flags_def)

theorem parse_negates_denials_witness:
  "ChatPermissions_parse (ChatBannedRights (all_flags (Some False))) =
     Some \<lparr> can_send_messages = Some True, can_send_media_messages = Some True,
            can_send_other_messages = Some True, can_add_web_page_previews = Some True,
            can_send_polls = Some True, can_change_info = Some True,
            can_invite_users = Some True, can_pin_messages = Some True \<rparr> \<and>
   (\<exists>p. ChatPermissions_parse
          (ChatBannedRights ((all_flags (Some True)) \<lparr> send_inline := Some False \<rparr>)) = Some p \<and>
        can_send_other_messages p = Some True \<and>
        can_send_messages p = Some False \<and>
        can_pin_messages p = Some False)"
  using parse_negates_denials [of "all_flags (Some False)"]
    parse_negates_denials [of "(all_flags (Some True)) \<lparr> send_inline := Some False \<rparr>"]
  by (simp add: all_flags_def)

text \<open>
  C9. The translator returns a permissions object exactly for a \<open>ChatBannedRights\<close>
  argument; for any other argument it returns \<open>None\<close>.
\<close>

theorem parse_none_unless_banned_rights:
  "(ChatPermissions_parse x = None \<longleftrightarrow> (\<forall>d. x \<noteq> ChatBannedRights d)) \<and>
   ((\<exists>p. ChatPermissions_parse x = Some p) \<longleftrightarrow> (\<exists>d. x = ChatBannedRights d))"
  by (cases x) simp_all

section \<open>Facts about the loop, the lookup maps and the traced client\<close>

lemma by_id_snoc: "by_id key (xs @ [x]) = (by_id key xs)(key x \<mapsto> x)"
  by (simp add: by_id_def)

lemma by_id_last_wins:
  "by_id key xs k =
     (let ys = filter (\<lambda>x. key x = k) xs in if ys = [] then None else Some (last ys))"
proof (induction xs rule: rev_induct)
  case Nil
  show ?case by (simp add: by_id_def)
next
  case (snoc x xs)
  then show ?case by (simp add: by_id_snoc Let_def)
qed

lemma scan_updates_skip:
  "\<forall>u\<in>set skipped. \<not> is_new_message u \<Longrightarrow>
   scan_updates c us cs (skipped @ rest) w = scan_updates c us cs rest w"
proof (induction skipped)
  case Nil
  show ?case by simp
next
  case (Cons u skipped)
  then show ?case by (cases u) simp_all
qed

lemma scan_updates_hit:
  "raw_of i = Some raw \<Longrightarrow>
   scan_updates c us cs (i # rest) w =
     returning (Message_parse c raw (by_id user_ident us) (by_id chat_ident cs) (is_scheduled i) w)"
  by (cases i) simp_all

lemma scan_updates_find:
  "scan_updates c us cs upds w =
     (case List.find is_new_message upds of
        None \<Rightarrow> (Inr None, w)
      | Some i \<Rightarrow>
          returning (Message_parse c (the (raw_of i)) (by_id user_ident us) (by_id chat_ident cs)
            (is_scheduled i) w))"
proof (induction upds)
  case Nil
  show ?case by simp
next
  case (Cons i rest)
  then show ?case by (cases i) simp_all
qed

lemma traced_parser_parse:
  "parser_parse (traced c) t m (w, l) =
     (case parser_parse c t m w of (r, w') \<Rightarrow> (r, (w', l @ [CallParse t m])))"
  by (simp add: traced_def)

lemma traced_resolve_peer:
  "resolve_peer (traced c) x (w, l) =
     (case resolve_peer c x w of (r, w') \<Rightarrow> (r, (w', l @ [CallResolvePeer x])))"
  by (simp add: traced_def)

lemma traced_rnd_id:
  "rnd_id (traced c) (w, l) = (case rnd_id c w of (r, w') \<Rightarrow> (r, (w', l @ [CallRndId])))"
  by (simp add: traced_def)

lemma traced_send:
  "send (traced c) req (w, l) =
     (case send c req w of (r, w') \<Rightarrow> (r, (w', l @ [CallSend req])))"
  by (simp add: traced_def)

lemma traced_Message_parse:
  "Message_parse (traced c) raw us cs sched (w, l) =
     (case Message_parse c raw us cs sched w of
        (r, w') \<Rightarrow> (r, (w', l @ [CallMessageParse raw sched])))"
  by (simp add: traced_def)

lemma traced_request:
  "SendMessage_request (traced c) p dwp dn rt rnd sd rm msg ents =
   SendMessage_request c p dwp dn rt rnd sd rm msg ents"
  by (simp add: SendMessage_request_def traced_def)

lemma traced_scan_updates:
  "scan_updates (traced c) us cs upds (w, l) =
     (case scan_updates c us cs upds w of
        (r, w') \<Rightarrow>
          (r, (w', l @ (case List.find is_new_message upds of
                          None \<Rightarrow> []
                        | Some i \<Rightarrow> [CallMessageParse (the (raw_of i)) (is_scheduled i)]))))"
  by (simp add: scan_updates_find traced_Message_parse returning_def
           split: option.splits prod.splits sum.splits)

lemma traced_run:
  "send_message (traced c) chat_id text pm dwp dn rt sd rm (w, l) =
     (case send_message c chat_id text pm dwp dn rt sd rm w of
        (r, w') \<Rightarrow> (r, (w', l @ calls c chat_id text pm dwp dn rt sd rm w)))"
  by (simp add: calls_def send_message_def traced_parser_parse traced_resolve_peer traced_rnd_id
        traced_send traced_request traced_scan_updates
      split: prod.splits sum.splits response.splits)

lemma calls_unfold:
  "calls c chat_id text pm dwp dn rt sd rm w0 =
     CallParse text pm #
     (case parser_parse c text pm w0 of
        (Inl e, w1) \<Rightarrow> []
      | (Inr (msg, ents), w1) \<Rightarrow>
          CallResolvePeer chat_id #
          (case resolve_peer c chat_id w1 of
             (Inl e, w2) \<Rightarrow> []
           | (Inr p, w2) \<Rightarrow>
               CallRndId #
               (case rnd_id c w2 of
                  (rnd, w3) \<Rightarrow>
                    CallSend (SendMessage_request c p dwp dn rt rnd sd rm msg ents) #
                    (case send c (SendMessage_request c p dwp dn rt rnd sd rm msg ents) w3 of
                       (Inl e, w4) \<Rightarrow> []
                     | (Inr (UpdateShortSentMessage r_id r_date r_out), w4) \<Rightarrow>
                         [CallResolvePeer chat_id]
                     | (Inr (Updates r_updates r_users r_chats), w4) \<Rightarrow>
                         (case List.find is_new_message r_updates of
                            None \<Rightarrow> []
                          | Some i \<Rightarrow> [CallMessageParse (the (raw_of i)) (is_scheduled i)])))))"
  by (simp add: calls_def send_message_def traced_parser_parse traced_resolve_peer traced_rnd_id
        traced_send traced_request traced_scan_updates
      split: prod.splits sum.splits response.splits)

lemma sent_requests_calls:
  "sent_requests (calls c chat_id text pm dwp dn rt sd rm w0) =
     (case parser_parse c text pm w0 of
        (Inl e, w1) \<Rightarrow> []
      | (Inr (msg, ents), w1) \<Rightarrow>
          (case resolve_peer c chat_id w1 of
             (Inl e, w2) \<Rightarrow> []
           | (Inr p, w2) \<Rightarrow>
               (case rnd_id c w2 of
                  (rnd, w3) \<Rightarrow> [SendMessage_request c p dwp dn rt rnd sd rm msg ents])))"
  by (simp add: calls_unfold split: prod.splits sum.splits response.splits option.splits)

lemma or_None_cases: "or_None x = (if x = Some True then Some True else None)"
  by (cases x) (simp_all add: or_None_def)

text \<open>The traced client returns what the client returns, and leaves the world as it does.\<close>

lemma traced_same_result:
  "fst (send_message (traced c) chat_id text pm dwp dn rt sd rm (w, l)) =
     fst (send_message c chat_id text pm dwp dn rt sd rm w) \<and>
   fst (snd (send_message (traced c) chat_id text pm dwp dn rt sd rm (w, l))) =
     snd (send_message c chat_id text pm dwp dn rt sd rm w)"
  by (simp add: traced_run split: prod.splits)

section \<open>Properties of send_message\<close>

text \<open>
  C2. In every request that a call of \<open>send_message\<close> sends, \<open>no_webpage\<close> is true
  exactly when the caller passed \<open>disable_web_page_preview = True\<close>, and \<open>silent\<close>
  exactly when the caller passed \<open>disable_notification = True\<close>; for a caller's
  \<open>False\<close> or \<open>None\<close> the field is \<open>None\<close> (absent), and it is never an explicit
  \<open>False\<close>.
\<close>

theorem request_flags_only_when_true:
  "\<forall>req \<in> set (sent_requests (calls c chat_id text pm dwp dn rt sd rm w0)).
     (no_webpage req = Some True \<longleftrightarrow> dwp = Some True) \<and>
     (silent req = Some True \<longleftrightarrow> dn = Some True) \<and>
     (dwp \<noteq> Some True \<longrightarrow> no_webpage req = None) \<and>
     (dn \<noteq> Some True \<longrightarrow> silent req = None) \<and>
     no_webpage req \<noteq> Some False \<and> silent req \<noteq> Some False"
  by (auto simp add: sent_requests_calls SendMessage_request_def or_None_cases
      split: prod.splits sum.splits)

theorem request_flags_only_when_true_witness:
  "sent_requests (calls (scripted (\<lambda>w. InputPeerUser 777) (UpdateShortSentMessage 42 1000 (Some True)))
     (ChatInt 777) ''hi'' ModeUnset (Some False) (Some True) None None None 0) =
     [\<lparr> peer = InputPeerUser 777, no_webpage = None, silent = Some True, reply_to_msg_id = None,
        random_id = 1002, schedule_date = None, reply_markup = None, message = ''hi'',
        entities = 7 \<rparr>] \<and>
   sent_requests (calls (scripted (\<lambda>w. InputPeerUser 777) (UpdateShortSentMessage 42 1000 (Some True)))
     (ChatInt 777) ''hi'' ModeUnset (Some True) None None None None 0) =
     [\<lparr> peer = InputPeerUser 777, no_webpage = Some True, silent = None, reply_to_msg_id = None,
        random_id = 1002, schedule_date = None, reply_markup = None, message = ''hi'',
        entities = 7 \<rparr>]"
  using request_flags_only_when_true [of "scripted (\<lambda>w. InputPeerUser 777) (UpdateShortSentMessage 42 1000 (Some True))"
     "ChatInt 777" "''hi''" ModeUnset "Some False" "Some True" None None None 0]
    request_flags_only_when_true [of "scripted (\<lambda>w. InputPeerUser 777) (UpdateShortSentMessage 42 1000 (Some True))"
     "ChatInt 777" "''hi''" ModeUnset "Some True" None None None None 0]
  by (simp add: sent_requests_calls scripted_def SendMessage_request_def or_None_def)



text \<open>
  C4. When the server answers with updates, of which \<open>i\<close> is the first of the variants
  \<open>UpdateNewMessage\<close>, \<open>UpdateNewChannelMessage\<close>, \<open>UpdateNewScheduledMessage\<close> (every
  update before it is of another variant and is skipped), \<open>send_message\<close> returns what
  the message parser makes of the raw message of \<open>i\<close>, given the users and the chats
  keyed by id, the last entry winning among equal ids, and given \<open>is_scheduled\<close>, which
  is true exactly when \<open>i\<close> is an \<open>UpdateNewScheduledMessage\<close>.
\<close>

theorem updates_first_new_message:
  assumes "parser_parse c text pm w0 = (Inr (msg, ents), w1)"
    and "resolve_peer c chat_id w1 = (Inr p1, w2)"
    and "rnd_id c w2 = (rnd, w3)"
    and "send c (SendMessage_request c p1 dwp dn rt rnd sd rm msg ents) w3 =
           (Inr (Updates (skipped @ i # rest) r_users r_chats), w4)"
    and "\<forall>u\<in>set skipped. \<not> is_new_message u"
    and "is_new_message i"
  shows "\<exists>raw. raw_of i = Some raw \<and>
           send_message c chat_id text pm dwp dn rt sd rm w0 =
             returning (Message_parse c raw (by_id user_ident r_users) (by_id chat_ident r_chats)
               (is_scheduled i) w4) \<and>
           (is_scheduled i \<longleftrightarrow> i = UpdateNewScheduledMessage raw) \<and>
           (\<forall>k. by_id user_ident r_users k =
              (let ys = filter (\<lambda>x. user_ident x = k) r_users
               in if ys = [] then None else Some (last ys))) \<and>
           (\<forall>k. by_id chat_ident r_chats k =
              (let ys = filter (\<lambda>x. chat_ident x = k) r_chats
               in if ys = [] then None else Some (last ys)))"
proof -
  from \<open>is_new_message i\<close> obtain raw where raw: "raw_of i = Some raw"
    by (cases i) simp_all
  have run: "send_message c chat_id text pm dwp dn rt sd rm w0 =
      scan_updates c r_users r_chats (skipped @ i # rest) w4"
    using assms(1-4) by (simp add: send_message_def)
  have "scan_updates c r_users r_chats (skipped @ i # rest) w4 =
      returning (Message_parse c raw (by_id user_ident r_users) (by_id chat_ident r_chats)
        (is_scheduled i) w4)"
    by (simp only: scan_updates_skip [OF assms(5)] scan_updates_hit [OF raw])
  moreover have "is_scheduled i \<longleftrightarrow> i = UpdateNewScheduledMessage raw"
    using raw by (cases i) simp_all
  ultimately show ?thesis
    using raw run by (simp add: by_id_last_wins [symmetric])
qed

theorem updates_first_new_message_witness:
  "send_message
     (scripted (\<lambda>w. InputPeerChat 2)
        (Updates [UpdateOther ''UpdateReadHistoryOutbox'', UpdateNewScheduledMessage ''raw1'',
                  UpdateNewMessage ''raw2'']
           [\<lparr> user_ident = 1, user_data = ''a'' \<rparr>, \<lparr> user_ident = 1, user_data = ''b'' \<rparr>]
           [\<lparr> chat_ident = 2, chat_data = ''group'' \<rparr>]))
     (ChatInt (- 2)) ''hi'' ModeUnset None None None (Some 2000) None 0 =
   (Inr (Some \<lparr> message_id = 1, chat = \<lparr> chat_peer_id = 2, chat_type = ''group'' \<rparr>,
                msg_text = ''raw1b'', date = 0, outgoing = Some True, msg_entities = 8 \<rparr>), 5)"
  using updates_first_new_message [of
      "scripted (\<lambda>w. InputPeerChat 2)
        (Updates [UpdateOther ''UpdateReadHistoryOutbox'', UpdateNewScheduledMessage ''raw1'',
                  UpdateNewMessage ''raw2'']
           [\<lparr> user_ident = 1, user_data = ''a'' \<rparr>, \<lparr> user_ident = 1, user_data = ''b'' \<rparr>]
           [\<lparr> chat_ident = 2, chat_data = ''group'' \<rparr>])"
      "''hi''" ModeUnset 0 "''hi''" 7 1 "ChatInt (- 2)" "InputPeerChat 2" 2 1002 3
      None None None "Some 2000" None
      "[UpdateOther ''UpdateReadHistoryOutbox'']" "UpdateNewScheduledMessage ''raw1''"
      "[UpdateNewMessage ''raw2'']"
      "[\<lparr> user_ident = 1, user_data = ''a'' \<rparr>, \<lparr> user_ident = 1, user_data = ''b'' \<rparr>]"
      "[\<lparr> chat_ident = 2, chat_data = ''group'' \<rparr>]" 4]
  by (simp add: scripted_def returning_def by_id_def)

text \<open>
  C5. When the server answers with updates none of which is of the three new-message
  variants, \<open>send_message\<close> returns \<open>None\<close> and raises nothing.
\<close>

theorem updates_without_new_message:
  assumes "parser_parse c text pm w0 = (Inr (msg, ents), w1)"
    and "resolve_peer c chat_id w1 = (Inr p1, w2)"
    and "rnd_id c w2 = (rnd, w3)"
    and "send c (SendMessage_request c p1 dwp dn rt rnd sd rm msg ents) w3 =
           (Inr (Updates r_updates r_users r_chats), w4)"
    and "\<forall>u\<in>set r_updates. \<not> is_new_message u"
  shows "send_message c chat_id text pm dwp dn rt sd rm w0 = (Inr None, w4)"
proof -
  have "scan_updates c r_users r_chats (r_updates @ []) w4 = scan_updates c r_users r_chats [] w4"
    using assms(5) by (rule scan_updates_skip)
  then show ?thesis
    using assms(1-4) by (simp add: send_message_def)
qed

theorem updates_without_new_message_witness:
  "send_message
     (scripted (\<lambda>w. InputPeerChat 2)
        (Updates [UpdateOther ''UpdateReadHistoryOutbox'', UpdateOther ''UpdateMessageID''] [] []))
     (ChatInt (- 2)) ''hi'' ModeUnset None None None None None 0 = (Inr None, 4)"
  using updates_without_new_message [of
      "scripted (\<lambda>w. InputPeerChat 2)
        (Updates [UpdateOther ''UpdateReadHistoryOutbox'', UpdateOther ''UpdateMessageID''] [] [])"
      "''hi''" ModeUnset 0 "''hi''" 7 1 "ChatInt (- 2)" "InputPeerChat 2" 2 1002 3
      None None None None None
      "[UpdateOther ''UpdateReadHistoryOutbox'', UpdateOther ''UpdateMessageID'']" "[]" "[]" 4]
  by (simp add: scripted_def)

text \<open>
  C6. When the server answers with an \<open>UpdateShortSentMessage\<close>, whatever its fields,
  the text and the entities of the returned message are the text and the entities that
  the parser returned before the request was sent.
\<close>

theorem short_sent_keeps_parsed_text:
  assumes "parser_parse c text pm w0 = (Inr (msg, ents), w1)"
    and "resolve_peer c chat_id w1 = (Inr p1, w2)"
    and "rnd_id c w2 = (rnd, w3)"
    and "send c (SendMessage_request c p1 dwp dn rt rnd sd rm msg ents) w3 =
           (Inr (UpdateShortSentMessage r_id r_date r_out), w4)"
    and "resolve_peer c chat_id w4 = (Inr p, w5)"
  shows "\<exists>m. send_message c chat_id text pm dwp dn rt sd rm w0 = (Inr (Some m), w5) \<and>
           msg_text m = msg \<and> msg_entities m = ents"
  using assms by (simp add: send_message_def)

theorem short_sent_keeps_parsed_text_witness:
  "\<exists>m. send_message (scripted (\<lambda>w. InputPeerUser 777) (UpdateShortSentMessage 42 1000 (Some True)))
          (ChatInt 777) ''Thanks for creating **Pyrogram**!'' ModeUnset None None None None None 0 =
          (Inr (Some m), 5) \<and>
        msg_text m = ''Thanks for creating **Pyrogram**!'' \<and> msg_entities m = 7"
  using short_sent_keeps_parsed_text [of
      "scripted (\<lambda>w. InputPeerUser 777) (UpdateShortSentMessage 42 1000 (Some True))"
      "''Thanks for creating **Pyrogram**!''" ModeUnset 0 "''Thanks for creating **Pyrogram**!''" 7 1
      "ChatInt 777" "InputPeerUser 777" 2 1002 3
      None None None None None 42 1000 "Some True" 4 "InputPeerUser 777" 5]
  by (simp add: scripted_def)

text \<open>
  C7. Every call of \<open>send_message\<close> calls the parser exactly once, with the caller's
  text and the caller's mode argument, and every request it sends carries the text and
  the entities that this call returned. A caller who passes no mode passes the
  sentinel, which selects the combined Markdown and HTML mode.
\<close>

theorem parser_called_once:
  "filter is_parse_call (calls c chat_id text pm dwp dn rt sd rm w0) = [CallParse text pm] \<and>
   (\<forall>req \<in> set (sent_requests (calls c chat_id text pm dwp dn rt sd rm w0)).
      \<exists>w1. parser_parse c text pm w0 = (Inr (message req, entities req), w1)) \<and>
   selected_mode ModeUnset = Some CombinedMarkdownHtml"
  by (auto simp add: calls_unfold sent_requests_calls SendMessage_request_def
      split: prod.splits sum.splits response.splits option.splits)

theorem parser_called_once_witness:
  "filter is_parse_call
     (calls (scripted (\<lambda>w. InputPeerUser 777) (UpdateShortSentMessage 42 1000 (Some True)))
        (ChatInt 777) ''hi'' ModeUnset None None None None None 0) = [CallParse ''hi'' ModeUnset] \<and>
   map message (sent_requests
     (calls (scripted (\<lambda>w. InputPeerUser 777) (UpdateShortSentMessage 42 1000 (Some True)))
        (ChatInt 777) ''hi'' ModeUnset None None None None None 0)) = [''hi'']"
  using parser_called_once [of
      "scripted (\<lambda>w. InputPeerUser 777) (UpdateShortSentMessage 42 1000 (Some True))"
      "ChatInt 777" "''hi''" ModeUnset None None None None None 0]
  by (simp add: sent_requests_calls scripted_def SendMessage_request_def)




text \<open>
  C10. When the server answers with an \<open>UpdateShortSentMessage\<close>, the run calls
  \<open>resolve_peer\<close> twice with the caller's \<open>chat_id\<close>, once before the request is built
  and once after the answer; the chat id of the returned message comes from the peer
  that the second call returns, not from the peer in the request.
\<close>

theorem resolve_peer_called_twice:
  assumes "parser_parse c text pm w0 = (Inr (msg, ents), w1)"
    and "resolve_peer c chat_id w1 = (Inr p1, w2)"
    and "rnd_id c w2 = (rnd, w3)"
    and "send c (SendMessage_request c p1 dwp dn rt rnd sd rm msg ents) w3 =
           (Inr (UpdateShortSentMessage r_id r_date r_out), w4)"
  shows "calls c chat_id text pm dwp dn rt sd rm w0 =
           [CallParse text pm, CallResolvePeer chat_id, CallRndId,
            CallSend (SendMessage_request c p1 dwp dn rt rnd sd rm msg ents),
            CallResolvePeer chat_id] \<and>
         filter is_resolve_call (calls c chat_id text pm dwp dn rt sd rm w0) =
           [CallResolvePeer chat_id, CallResolvePeer chat_id] \<and>
         (\<forall>p w5. resolve_peer c chat_id w4 = (Inr p, w5) \<longrightarrow>
            (\<exists>m. send_message c chat_id text pm dwp dn rt sd rm w0 = (Inr (Some m), w5) \<and>
                 chat_peer_id (chat m) = peer_id_of p))"
  using assms by (simp add: calls_unfold send_message_def)

theorem resolve_peer_called_twice_witness:
  "calls (scripted (\<lambda>w. if w < 4 then InputPeerUser 777 else InputPeerChat 5)
            (UpdateShortSentMessage 42 1000 (Some True)))
     (ChatInt 777) ''hi'' ModeUnset None None None None None 0 =
     [CallParse ''hi'' ModeUnset, CallResolvePeer (ChatInt 777), CallRndId,
      CallSend \<lparr> peer = InputPeerUser 777, no_webpage = None, silent = None,
                 reply_to_msg_id = None, random_id = 1002, schedule_date = None,
                 reply_markup = None, message = ''hi'', entities = 7 \<rparr>,
      CallResolvePeer (ChatInt 777)] \<and>
   (\<exists>m. send_message (scripted (\<lambda>w. if w < 4 then InputPeerUser 777 else InputPeerChat 5)
            (UpdateShortSentMessage 42 1000 (Some True)))
          (ChatInt 777) ''hi'' ModeUnset None None None None None 0 = (Inr (Some m), 5) \<and>
        chat_peer_id (chat m) = - 5)"
  using resolve_peer_called_twice [of
      "scripted (\<lambda>w. if w < 4 then InputPeerUser 777 else InputPeerChat 5)
         (UpdateShortSentMessage 42 1000 (Some True))"
      "''hi''" ModeUnset 0 "''hi''" 7 1 "ChatInt 777" "InputPeerUser 777" 2 1002 3
      None None None None None 42 1000 "Some True" 4]
  by (simp add: scripted_def SendMessage_request_def or_None_def)

end
